theory Spec2Isabelle
  imports Main "HOL-Library.Sublist"
begin

section \<open>Strings of the C++ library\<close>

text \<open>
  A \<^verbatim>\<open>std::string\<close> is a sequence of bytes: \<^typ>\<open>string\<close>. The two library
  operations \<^verbatim>\<open>UpdatePredefines\<close> calls are modelled after the C++ standard:
  \<^verbatim>\<open>find\<close> returns the lowest position at which the needle starts, or
  \<^verbatim>\<open>npos\<close> (here \<^const>\<open>None\<close>); \<^verbatim>\<open>substr(pos, count)\<close> throws
  \<^verbatim>\<open>std::out_of_range\<close> when \<^verbatim>\<open>pos > size()\<close> and otherwise returns the
  characters from \<^verbatim>\<open>pos\<close>, at most \<^verbatim>\<open>count\<close> of them (all of them when
  \<^verbatim>\<open>count\<close> is left at its default \<^verbatim>\<open>npos\<close>, here \<^const>\<open>None\<close>).
\<close>

datatype exn = out_of_range

fun string_find :: "string \<Rightarrow> string \<Rightarrow> nat option" where
  "string_find [] needle = (if needle = [] then Some 0 else None)"
| "string_find (c # cs) needle =
     (if prefix needle (c # cs) then Some 0
      else map_option Suc (string_find cs needle))"

definition substr :: "string \<Rightarrow> nat \<Rightarrow> nat option \<Rightarrow> exn + string" where
  "substr s pos count =
     (if length s < pos then Inl out_of_range
      else case count of
             None \<Rightarrow> Inr (drop pos s)
           | Some n \<Rightarrow> Inr (take n (drop pos s)))"

text \<open>
  \<^verbatim>\<open>c_str()\<close> hands a \<^verbatim>\<open>std::string\<close> out as a NUL-terminated C string: whoever
  reads the pointer sees the characters before the first NUL byte. An argument token
  (\<^verbatim>\<open>const char*\<close>) is modelled by the characters it denotes.
\<close>

definition c_str :: "string \<Rightarrow> string" where
  "c_str s = takeWhile (\<lambda>c. c \<noteq> CHR 0x00) s"

text \<open>\<^verbatim>\<open>sizeof\<close> of a character array initialised by a literal counts the NUL.\<close>

definition sizeof_literal :: "string \<Rightarrow> nat" where
  "sizeof_literal s = length s + 1"

section \<open>Options\<close>

text \<open>
  Modelled from the spec: \<^verbatim>\<open>Options.h\<close> is not among the sources. The record has
  the fields \<^verbatim>\<open>RunClang.cxx\<close> reads, with the types of their uses there; they are
  the entries of the spec's EmulationConfig.
\<close>

record Options =
  HaveCC :: bool
  GccXml :: bool
  PPOnly :: bool
  Predefines :: string
  Triple :: string
  Includes :: "string list"
  OutputFile :: string
  StartNames :: "string list"

section \<open>CastXMLPredefines\<close>

definition predef_start :: string where
  \<open>predef_start = ''# 1 "<built-in>" 3\<newline>''\<close>

definition predef_end :: string where
  \<open>predef_end = ''# 1 "<command line>" 1\<newline>''\<close>

definition UpdatePredefines :: "Options \<Rightarrow> string \<Rightarrow> exn + string" where
  "UpdatePredefines opts predefines =
     (let start = string_find predefines predef_start;
          end = string_find predefines predef_end
      in case (start, end) of
           (Some start', Some end') \<Rightarrow>
             (case substr predefines 0 (Some (start' + sizeof_literal predef_start - 1)) of
                Inl e \<Rightarrow> Inl e
              | Inr x \<Rightarrow>
                 (case substr predefines end' None of
                    Inl e \<Rightarrow> Inl e
                  | Inr y \<Rightarrow> Inr (x @ Predefines opts @ y)))
         | _ \<Rightarrow> Inr (predefines @ Predefines opts))"

text \<open>
  \<^verbatim>\<open>BeginSourceFileAction\<close> reads the preprocessor's predefines and installs the
  patched text; the model takes the predefines and returns the hook's boolean with the
  predefines the preprocessor holds afterwards.
\<close>

definition BeginSourceFileAction :: "Options \<Rightarrow> string \<Rightarrow> exn + (bool \<times> string)" where
  "BeginSourceFileAction opts pp_predefines =
     (if HaveCC opts then
        (case UpdatePredefines opts pp_predefines of
           Inl e \<Rightarrow> Inl e
         | Inr s \<Rightarrow> Inr (True, s))
      else Inr (True, pp_predefines))"

section \<open>Clang, as far as \<^verbatim>\<open>RunClang.cxx\<close> drives it\<close>

text \<open>
  \<^verbatim>\<open>clang::frontend::ActionKind\<close>: the two enumerators the file names, and every
  other one by its numeric value.
\<close>

datatype ActionKind = PrintPreprocessedInput | ParseSyntaxOnly | OtherAction nat

record FrontendOptions =
  ProgramAction :: ActionKind
  SkipFunctionBodies :: bool
  FrontendOpts_OutputFile :: string

text \<open>
  A compiler instance with the invocation it owns: the argument vector the invocation
  was parsed from stands for the option groups the file never reads.
\<close>

record CompilerInstance =
  InvocationArgs :: "string list"
  FrontendOpts :: FrontendOptions
  hasDiagnostics :: bool

datatype FrontendAction =
    CastXMLPrintPreprocessedAction Options
  | CastXMLSyntaxOnlyAction Options

text \<open>
  A job of the driver is a command (the name of the tool that created it, its argument
  vector) or a list of jobs; \<^verbatim>\<open>dyn_cast<Command>\<close> succeeds on the first kind only.
\<close>

datatype Job =
    is_Command: Command (getCreatorName: string) (getArguments: "string list")
  | JobList "Job list"

datatype OptSpecifier = OPT__HASH_HASH_HASH | OPT_other nat

text \<open>
  A compilation: the option identifiers of its parsed arguments and its job list.
\<close>

record Compilation =
  getArgs :: "OptSpecifier list"
  getJobs :: "Job list"

definition hasArg :: "OptSpecifier list \<Rightarrow> OptSpecifier \<Rightarrow> bool" where
  "hasArg args opt = (opt \<in> set args)"

record Driver =
  Name :: string
  DefaultTargetTriple :: string
  DefaultImageName :: string
  ResourceDir :: string

datatype DiagID =
    err_drv_output_argument_with_multiple_files
  | err_fe_expected_clang_command
  | err_fe_expected_compiler_job

text \<open>
  What a run does to the outside, in order: text printed to \<^verbatim>\<open>llvm::errs()\<close> and to
  \<^verbatim>\<open>std::cerr\<close>, a diagnostic reported through the driver's diagnostics engine with
  its arguments, and the calls into Clang that work on a job. The serialization routine
  \<^verbatim>\<open>outputXML\<close> is reached only from \<^verbatim>\<open>HandleTranslationUnit\<close>, which Clang calls
  while it executes an action.
\<close>

datatype Event =
    ErrsPrint string
  | CerrPrint string
  | Report DiagID "string list"
  | Call_CreateFromArgs "string list"
  | Call_createDiagnostics
  | Call_ExecuteAction CompilerInstance FrontendAction

text \<open>
  The functions of Clang, LLVM and the helper libraries that the file calls are
  parameters; \<open>'w\<close> is the state of everything outside the file (file system, streams,
  Clang's own state), which they read and change.
\<close>

record 'w Clang =
  getDefaultTargetTriple :: string
  Driver_new :: "string \<Rightarrow> string \<Rightarrow> string \<Rightarrow> Driver"
  FileIsFullPath :: "'w \<Rightarrow> string \<Rightarrow> bool"
  FileIsDirectory :: "'w \<Rightarrow> string \<Rightarrow> bool"
  getClangResourceDir :: "'w \<Rightarrow> string"
  BuildCompilation :: "Driver \<Rightarrow> string list \<Rightarrow> 'w \<Rightarrow> Compilation \<times> 'w"
  Job_Print :: "Job \<Rightarrow> string \<Rightarrow> bool \<Rightarrow> string"
  CreateFromArgs :: "string list \<Rightarrow> 'w \<Rightarrow> (bool \<times> FrontendOptions) \<times> 'w"
  createDiagnostics :: "'w \<Rightarrow> bool \<times> 'w"
  ExecuteAction :: "CompilerInstance \<Rightarrow> FrontendAction \<Rightarrow> 'w \<Rightarrow> bool \<times> 'w"

record 'w State =
  world :: 'w
  trace :: "Event list"

definition emit :: "Event \<Rightarrow> 'w State \<Rightarrow> 'w State" where
  "emit ev st = st\<lparr>trace := trace st @ [ev]\<rparr>"

section \<open>Running Clang\<close>

text \<open>The decimal digits \<^verbatim>\<open>operator<<\<close> prints for a non-negative \<^verbatim>\<open>int\<close>.\<close>

fun decimal :: "nat \<Rightarrow> string" where
  "decimal n =
     (if n < 10 then [char_of (48 + n)]
      else decimal (n div 10) @ [char_of (48 + n mod 10)])"

definition CreateFrontendAction ::
  "CompilerInstance \<Rightarrow> Options \<Rightarrow> 'w State \<Rightarrow> FrontendAction option \<times> 'w State" where
  "CreateFrontendAction CI opts st =
     (case ProgramAction (FrontendOpts CI) of
        PrintPreprocessedInput \<Rightarrow> (Some (CastXMLPrintPreprocessedAction opts), st)
      | ParseSyntaxOnly \<Rightarrow> (Some (CastXMLSyntaxOnlyAction opts), st)
      | OtherAction action \<Rightarrow>
          (None, emit (CerrPrint (''error: unsupported action: '' @ decimal action
                                    @ ''\<newline>'')) st))"

definition runClangCI ::
  "'w Clang \<Rightarrow> CompilerInstance \<Rightarrow> Options \<Rightarrow> 'w State \<Rightarrow> bool \<times> 'w State" where
  "runClangCI clang CI opts st =
     (case createDiagnostics clang (world st) of
        (created, w1) \<Rightarrow>
          let st1 = emit Call_createDiagnostics (st\<lparr>world := w1\<rparr>);
              CI1 = CI\<lparr>hasDiagnostics := created\<rparr>
          in if \<not> hasDiagnostics CI1 then (False, st1)
             else
               let CI2 = CI1\<lparr>FrontendOpts := (FrontendOpts CI1)\<lparr>SkipFunctionBodies := True\<rparr>\<rparr>;
                   CI3 = CI2\<lparr>FrontendOpts :=
                           (FrontendOpts CI2)\<lparr>FrontendOpts_OutputFile := OutputFile opts\<rparr>\<rparr>
               in case CreateFrontendAction CI3 opts st1 of
                    (Some action, st2) \<Rightarrow>
                      (case ExecuteAction clang CI3 action (world st2) of
                         (ok, w3) \<Rightarrow>
                           (ok, emit (Call_ExecuteAction CI3 action) (st2\<lparr>world := w3\<rparr>)))
                  | (None, st2) \<Rightarrow> (False, st2))"

text \<open>
  The body of the loop over the jobs (lines 239 to 261): it takes the job and the
  running \<^verbatim>\<open>result\<close> and returns the new \<^verbatim>\<open>result\<close>.
\<close>

definition runJob ::
  "'w Clang \<Rightarrow> Options \<Rightarrow> Job \<Rightarrow> bool \<Rightarrow> 'w State \<Rightarrow> bool \<times> 'w State" where
  "runJob clang opts job result st =
     (if is_Command job \<and> getCreatorName job = ''clang'' then
        (case CreateFromArgs clang (getArguments job) (world st) of
           ((parsed, fe), w1) \<Rightarrow>
             let st1 = emit (Call_CreateFromArgs (getArguments job)) (st\<lparr>world := w1\<rparr>);
                 CI = \<lparr>InvocationArgs = getArguments job, FrontendOpts = fe,
                       hasDiagnostics = False\<rparr>
             in if parsed then
                  (case runClangCI clang CI opts st1 of (ok, st2) \<Rightarrow> (ok \<and> result, st2))
                else (False, st1))
      else
        let msg = Job_Print clang job ''\<newline>'' True;
            st1 = emit (Report err_fe_expected_clang_command []) st;
            st2 = emit (Report err_fe_expected_compiler_job [msg]) st1
        in (False, st2))"

fun runJobs ::
  "'w Clang \<Rightarrow> Options \<Rightarrow> Job list \<Rightarrow> bool \<Rightarrow> 'w State \<Rightarrow> bool \<times> 'w State" where
  "runJobs clang opts [] result st = (result, st)"
| "runJobs clang opts (job # jobs) result st =
     (case runJob clang opts job result st of
        (result', st') \<Rightarrow> runJobs clang opts jobs result' st')"

text \<open>
  Lines 196 to 220 of \<^verbatim>\<open>runClangImpl\<close>: the driver, its resource directory, the
  argument vector with the mode flag, and the compilation the driver builds from it.
\<close>

definition runClangImpl_driver :: "'w Clang \<Rightarrow> 'w \<Rightarrow> Driver" where
  "runClangImpl_driver clang w =
     (let d = Driver_new clang ''clang'' (getDefaultTargetTriple clang) ''dummy.out''
      in if \<not> FileIsFullPath clang w (ResourceDir d) \<or> \<not> FileIsDirectory clang w (ResourceDir d)
         then d\<lparr>ResourceDir := getClangResourceDir clang w\<rparr>
         else d)"

definition runClangImpl_cArgs :: "string list \<Rightarrow> Options \<Rightarrow> string list" where
  "runClangImpl_cArgs args opts =
     (let cArgs = [''<clang>''] @ args
      in if PPOnly opts then cArgs @ [''-E''] else cArgs @ [''-fsyntax-only''])"

definition runClangImpl_compilation ::
  "'w Clang \<Rightarrow> string list \<Rightarrow> Options \<Rightarrow> 'w State \<Rightarrow> Compilation \<times> 'w State" where
  "runClangImpl_compilation clang args opts st =
     (case BuildCompilation clang (runClangImpl_driver clang (world st))
             (runClangImpl_cArgs args opts) (world st) of
        (c, w1) \<Rightarrow> (c, st\<lparr>world := w1\<rparr>))"

definition runClangImpl ::
  "'w Clang \<Rightarrow> string list \<Rightarrow> Options \<Rightarrow> 'w State \<Rightarrow> int \<times> 'w State" where
  "runClangImpl clang args opts st =
     (case runClangImpl_compilation clang args opts st of
        (c, st1) \<Rightarrow>
          if hasArg (getArgs c) OPT__HASH_HASH_HASH then
            (0, emit (ErrsPrint (Job_Print clang (JobList (getJobs c)) ''\<newline>'' True)) st1)
          else if OutputFile opts \<noteq> [] \<and> length (getJobs c) > 1 then
            (1, emit (Report err_drv_output_argument_with_multiple_files []) st1)
          else
            (case runJobs clang opts (getJobs c) True st1 of
               (result, st2) \<Rightarrow> (if result then 0 else 1, st2)))"

text \<open>
  \<^verbatim>\<open>runClang\<close>: the vector \<^verbatim>\<open>args\<close> is a copy of the caller's range of tokens,
  which the function reads through pointers to constants.
\<close>

fun runClang_includes :: "string list \<Rightarrow> string list \<Rightarrow> string list" where
  "runClang_includes args [] = args"
| "runClang_includes args (i # is) = runClang_includes (args @ [''-isystem'', c_str i]) is"

definition runClang_args :: "string list \<Rightarrow> Options \<Rightarrow> string list" where
  "runClang_args argv opts =
     (let args = argv
      in if HaveCC opts then
           let args1 = (if Triple opts \<noteq> [] then args @ [''-target'', c_str (Triple opts)]
                        else args);
               args2 = args1 @ [''-nostdinc''];
               args3 = runClang_includes args2 (Includes opts)
           in args3 @ [''-undef'']
         else args)"

definition runClang ::
  "'w Clang \<Rightarrow> string list \<Rightarrow> Options \<Rightarrow> 'w State \<Rightarrow> int \<times> 'w State" where
  "runClang clang argv opts st = runClangImpl clang (runClang_args argv opts) opts st"

section \<open>The result of each job\<close>

text \<open>
  The boolean a job contributes is what the loop body leaves in \<^verbatim>\<open>result\<close> when it
  starts from \<^verbatim>\<open>true\<close>; \<open>jobResults\<close> lists them for the jobs of a run, each job
  starting in the state the jobs before it left.
\<close>

fun jobResults :: "'w Clang \<Rightarrow> Options \<Rightarrow> Job list \<Rightarrow> 'w State \<Rightarrow> bool list" where
  "jobResults clang opts [] st = []"
| "jobResults clang opts (job # jobs) st =
     (case runJob clang opts job True st of
        (ok, st') \<Rightarrow> ok # jobResults clang opts jobs st')"

section \<open>An example environment\<close>

text \<open>
  A small Clang for concrete runs: the outside state counts the calls made. The driver
  makes one job per input token, a \<open>clang\<close> command except for \<open>lib.a\<close>; parsing
  fails on \<open>garbled.cpp\<close>, \<open>emit.cpp\<close> parses to an action with code 17, and
  executing the action fails on \<open>broken.cpp\<close>.
\<close>

definition ex_job :: "string \<Rightarrow> string \<Rightarrow> Job" where
  "ex_job mode file =
     (if file = ''lib.a'' then Command ''ld'' [file]
      else Command ''clang'' [''-cc1'', mode, file])"

definition ex_is_input :: "string \<Rightarrow> bool" where
  "ex_is_input a = (case a of [] \<Rightarrow> False | c # _ \<Rightarrow> c \<noteq> CHR ''-'' \<and> c \<noteq> CHR ''<'')"

definition ex_clang :: "nat Clang" where
  "ex_clang =
     \<lparr>getDefaultTargetTriple = ''x86_64-unknown-linux-gnu'',
      Driver_new = (\<lambda>name triple image.
         \<lparr>Name = name, DefaultTargetTriple = triple, DefaultImageName = image,
          ResourceDir = ''../lib/clang/3.4''\<rparr>),
      FileIsFullPath = (\<lambda>w p. take 1 p = ''/''),
      FileIsDirectory = (\<lambda>w p. True),
      getClangResourceDir = (\<lambda>w. ''/usr/lib/clang/3.4''),
      BuildCompilation = (\<lambda>d cArgs w.
         (\<lparr>getArgs = (if ''-###'' \<in> set cArgs then [OPT__HASH_HASH_HASH] else []),
           getJobs = map (ex_job (last cArgs)) (filter ex_is_input cArgs)\<rparr>, Suc w)),
      Job_Print = (\<lambda>job terminator quote. ''<job>'' @ terminator),
      CreateFromArgs = (\<lambda>args w.
         ((last args \<noteq> ''garbled.cpp'',
           \<lparr>ProgramAction =
              (if last args = ''emit.cpp'' then OtherAction 17
               else if ''-E'' \<in> set args then PrintPreprocessedInput
               else ParseSyntaxOnly),
            SkipFunctionBodies = False, FrontendOpts_OutputFile = []\<rparr>), Suc w)),
      createDiagnostics = (\<lambda>w. (True, Suc w)),
      ExecuteAction = (\<lambda>CI action w. (last (InvocationArgs CI) \<noteq> ''broken.cpp'', Suc w))\<rparr>"

definition ex_opts :: Options where
  "ex_opts = \<lparr>HaveCC = False, GccXml = True, PPOnly = False, Predefines = [],
              Triple = [], Includes = [], OutputFile = [], StartNames = []\<rparr>"

definition ex_state :: "nat State" where
  "ex_state = \<lparr>world = 0, trace = []\<rparr>"

section \<open>Properties of the library model\<close>

lemma string_find_None_iff: "string_find h n = None \<longleftrightarrow> \<not> sublist n h"
  by (induction h) (auto simp: sublist_Cons_right)

lemma string_find_bound:
  "string_find h n = Some i \<Longrightarrow> i + length n \<le> length h"
proof (induction h arbitrary: i)
  case Nil
  then show ?case by (simp split: if_splits)
next
  case (Cons c cs)
  show ?case
  proof (cases "prefix n (c # cs)")
    case True
    then have "length n \<le> length (c # cs)" by (rule prefix_length_le)
    with True Cons.prems show ?thesis by simp
  next
    case False
    with Cons.prems obtain k where "string_find cs n = Some k" "i = Suc k"
      by auto
    with Cons.IH show ?thesis by fastforce
  qed
qed

lemma prefix_append_short:
  "prefix n (X @ Y) \<Longrightarrow> length n \<le> length X \<Longrightarrow> prefix n X"
  by (metis prefix_length_prefix prefix_append prefixI)

text \<open>
  The needle starts at position \<open>length A\<close> and at no earlier position: an earlier
  occurrence would lie within \<open>A @ butlast n\<close>.
\<close>

lemma string_find_first:
  "\<not> sublist n (A @ butlast n) \<Longrightarrow> string_find (A @ n @ B) n = Some (length A)"
proof (induction A)
  case Nil
  have "n \<noteq> []" using Nil by auto
  then show ?case by (cases n) simp_all
next
  case (Cons a A)
  have ne: "n \<noteq> []" using Cons.prems by auto
  have "\<not> prefix n (a # A @ n @ B)"
  proof
    assume p: "prefix n (a # A @ n @ B)"
    have eq: "a # A @ n @ B = ((a # A) @ butlast n) @ ([last n] @ B)"
      using ne by simp
    have "length n \<le> length ((a # A) @ butlast n)" by simp
    with p eq have "prefix n ((a # A) @ butlast n)"
      using prefix_append_short by metis
    then have "sublist n ((a # A) @ butlast n)" by (rule prefix_imp_sublist)
    with Cons.prems show False by simp
  qed
  moreover have "\<not> sublist n (A @ butlast n)"
    using Cons.prems by (auto simp: sublist_Cons_right)
  ultimately show ?case using Cons.IH by simp
qed

lemma substr_prefix:
  "n \<le> length s \<Longrightarrow> substr s 0 (Some n) = Inr (take n s)"
  by (simp add: substr_def)

lemma substr_suffix:
  "pos \<le> length s \<Longrightarrow> substr s pos None = Inr (drop pos s)"
  by (simp add: substr_def)

lemma c_str_id: "CHR 0x00 \<notin> set s \<Longrightarrow> c_str s = s"
  by (auto simp: c_str_def takeWhile_eq_all_conv)

lemma UpdatePredefines_found:
  assumes "string_find p predef_start = Some s" and "string_find p predef_end = Some e"
  shows "UpdatePredefines opts p =
           Inr (take (s + length predef_start) p @ Predefines opts @ drop e p)"
proof -
  have "s + length predef_start \<le> length p" "e \<le> length p"
    using assms string_find_bound by fastforce+
  then show ?thesis
    using assms by (simp add: UpdatePredefines_def sizeof_literal_def substr_def)
qed

lemma UpdatePredefines_missing:
  assumes "string_find p predef_start = None \<or> string_find p predef_end = None"
  shows "UpdatePredefines opts p = Inr (p @ Predefines opts)"
  using assms by (auto simp: UpdatePredefines_def split: option.splits)

section \<open>Properties of the job loop\<close>

lemma runJob_result:
  "runJob clang opts job result st =
     (fst (runJob clang opts job True st) \<and> result, snd (runJob clang opts job True st))"
  by (simp add: runJob_def Let_def split: prod.splits)

lemma runJobs_False: "fst (runJobs clang opts jobs False st) = False"
proof (induction jobs arbitrary: st)
  case Nil
  show ?case by simp
next
  case (Cons job jobs)
  obtain r st' where r: "runJob clang opts job False st = (r, st')" by fastforce
  have "r = False" using runJob_result [of clang opts job False st] r by simp
  with r Cons.IH show ?case by simp
qed

lemma runJobs_jobResults:
  "fst (runJobs clang opts jobs result st)
     = (result \<and> list_all id (jobResults clang opts jobs st))"
proof (induction jobs arbitrary: result st)
  case Nil
  show ?case by simp
next
  case (Cons job jobs)
  obtain ok st' where t: "runJob clang opts job True st = (ok, st')" by fastforce
  then have "runJob clang opts job result st = (ok \<and> result, st')"
    using runJob_result [of clang opts job result st] by simp
  with t Cons.IH show ?case by auto
qed

lemma runJobs_append:
  "runJobs clang opts (xs @ ys) result st =
     (case runJobs clang opts xs result st of
        (result', st') \<Rightarrow> runJobs clang opts ys result' st')"
  by (induction xs arbitrary: result st) (simp_all split: prod.splits)

lemma runClang_includes_concat:
  "runClang_includes args dirs = args @ concat (map (\<lambda>dir. [''-isystem'', c_str dir]) dirs)"
  by (induction dirs arbitrary: args) simp_all

lemma runJob_unexpected:
  assumes "\<nexists>arguments. job = Command ''clang'' arguments"
  shows "runJob clang opts job result st =
           (False, st\<lparr>trace := trace st @
              [Report err_fe_expected_clang_command [],
               Report err_fe_expected_compiler_job [Job_Print clang job ''\<newline>'' True]]\<rparr>)"
proof -
  have "\<not> (is_Command job \<and> getCreatorName job = ''clang'')"
    using assms by (cases job) auto
  then show ?thesis by (auto simp: runJob_def emit_def Let_def)
qed

lemma runClangImpl_compilation_trace:
  "runClangImpl_compilation clang args opts st = (c, st1) \<Longrightarrow> trace st1 = trace st"
  by (auto simp: runClangImpl_compilation_def split: prod.splits)

text \<open>
  For a \<open>clang\<close> command whose arguments parse, the boolean of the job is the one
  \<open>runClangCI\<close> returns.
\<close>

lemma runJob_clang_command:
  assumes "CreateFromArgs clang arguments (world st) = ((True, fe), w1)"
  shows "fst (runJob clang opts (Command ''clang'' arguments) True st) =
           fst (runClangCI clang
                  \<lparr>InvocationArgs = arguments, FrontendOpts = fe, hasDiagnostics = False\<rparr> opts
                  (emit (Call_CreateFromArgs arguments) (st\<lparr>world := w1\<rparr>)))"
  using assms by (simp add: runJob_def Let_def split: prod.splits)

section \<open>The predefines patcher\<close>

text \<open>
  C1. A predefines text holds both markers: it is \<open>A @ predef_start @ B\<close>, the built-in
  marker line starting at position \<open>length A\<close> and nowhere before, and it is
  \<open>C @ predef_end @ D\<close>, the command line marker starting at position \<open>length C\<close> and
  nowhere before. The built-in segment is \<open>X = A @ predef_start\<close> (it ends with the marker
  line), the command line segment is \<open>Y = predef_end @ D\<close> (it starts with the marker).
  Then \<open>UpdatePredefines\<close> returns \<open>X @ R @ Y\<close> for the replacement \<open>R\<close> of the options:
  every character of \<open>X\<close> and \<open>Y\<close> is kept and \<open>R\<close> stands between the two marker lines.
\<close>

theorem UpdatePredefines_splice:
  assumes "predefines = A @ predef_start @ B"
    and "\<not> sublist predef_start (A @ butlast predef_start)"
    and "predefines = C @ predef_end @ D"
    and "\<not> sublist predef_end (C @ butlast predef_end)"
  shows "UpdatePredefines opts predefines =
           Inr ((A @ predef_start) @ Predefines opts @ (predef_end @ D))"
proof -
  have s: "string_find predefines predef_start = Some (length A)"
    using assms(1,2) string_find_first by simp
  have e: "string_find predefines predef_end = Some (length C)"
    using assms(3,4) string_find_first by simp
  have "take (length A + length predef_start) predefines = A @ predef_start"
    using assms(1) by simp
  moreover have "drop (length C) predefines = predef_end @ D"
    using assms(3) by simp
  ultimately show ?thesis
    using UpdatePredefines_found [OF s e] by simp
qed

theorem UpdatePredefines_splice_witness:
  \<open>UpdatePredefines \<lparr>HaveCC = True, GccXml = True, PPOnly = False,
       Predefines = ''#define FOO 1\<newline>'', Triple = [], Includes = [], OutputFile = [],
       StartNames = []\<rparr>
     (''#define A 1\<newline>'' @ predef_start @ ''#define __clang__ 1\<newline>'' @ predef_end
        @ ''#define B 2\<newline>'')
   = Inr (''#define A 1\<newline># 1 "<built-in>" 3\<newline>#define FOO 1\<newline>''
          @ ''# 1 "<command line>" 1\<newline>#define B 2\<newline>'')\<close>
proof -
  let ?A = "''#define A 1\<newline>''"
  let ?B = "''#define __clang__ 1\<newline>'' @ predef_end @ ''#define B 2\<newline>''"
  let ?C = "''#define A 1\<newline>'' @ predef_start @ ''#define __clang__ 1\<newline>''"
  let ?D = "''#define B 2\<newline>''"
  let ?p = "?A @ predef_start @ ?B"
  have 1: "?p = ?A @ predef_start @ ?B" by simp
  have 2: "\<not> sublist predef_start (?A @ butlast predef_start)"
    by (simp add: predef_start_def sublist_code)
  have 3: "?p = ?C @ predef_end @ ?D" by simp
  have 4: "\<not> sublist predef_end (?C @ butlast predef_end)"
    by (simp add: predef_start_def predef_end_def sublist_code)
  show ?thesis
    using UpdatePredefines_splice [OF 1 2 3 4]
    by (simp add: predef_start_def predef_end_def)
qed

text \<open>
  C2. When the built-in marker line or the command line marker does not occur in the
  predefines text, \<open>UpdatePredefines\<close> returns the text followed by the replacement, it
  does not throw, and the file-start hook reports success: under emulation the
  preprocessor then holds the text followed by the replacement.
\<close>

theorem UpdatePredefines_fallback:
  assumes "\<not> sublist predef_start predefines \<or> \<not> sublist predef_end predefines"
  shows "UpdatePredefines opts predefines = Inr (predefines @ Predefines opts)
       \<and> BeginSourceFileAction opts predefines =
           Inr (True, if HaveCC opts then predefines @ Predefines opts else predefines)"
proof -
  have "string_find predefines predef_start = None \<or> string_find predefines predef_end = None"
    using assms by (simp add: string_find_None_iff)
  then have "UpdatePredefines opts predefines = Inr (predefines @ Predefines opts)"
    by (rule UpdatePredefines_missing)
  then show ?thesis by (simp add: BeginSourceFileAction_def)
qed

theorem UpdatePredefines_fallback_witness:
  \<open>UpdatePredefines \<lparr>HaveCC = True, GccXml = False, PPOnly = False,
       Predefines = ''#define FOO 1\<newline>'', Triple = [], Includes = [], OutputFile = [],
       StartNames = []\<rparr> (''#define A 1\<newline>'' @ predef_end)
     = Inr (''#define A 1\<newline># 1 "<command line>" 1\<newline>#define FOO 1\<newline>'')
   \<and> BeginSourceFileAction \<lparr>HaveCC = True, GccXml = False, PPOnly = False,
       Predefines = ''#define FOO 1\<newline>'', Triple = [], Includes = [], OutputFile = [],
       StartNames = []\<rparr> (''#define A 1\<newline>'' @ predef_end)
     = Inr (True, ''#define A 1\<newline># 1 "<command line>" 1\<newline>#define FOO 1\<newline>'')\<close>
proof -
  have "\<not> sublist predef_start (''#define A 1\<newline>'' @ predef_end)"
    by (simp add: predef_start_def predef_end_def sublist_code)
  then have h: "\<not> sublist predef_start (''#define A 1\<newline>'' @ predef_end)
      \<or> \<not> sublist predef_end (''#define A 1\<newline>'' @ predef_end)" ..
  show ?thesis
    using UpdatePredefines_fallback [OF h] by (simp add: predef_end_def)
qed

text \<open>
  C10. For every predefines text and every replacement, \<open>UpdatePredefines\<close> returns a
  text that holds the whole replacement as one contiguous block.
\<close>

theorem UpdatePredefines_keeps_replacement:
  "\<exists>pre post. UpdatePredefines opts predefines = Inr (pre @ Predefines opts @ post)"
proof (cases "string_find predefines predef_start")
  case None
  then have "UpdatePredefines opts predefines = Inr (predefines @ Predefines opts @ [])"
    using UpdatePredefines_missing by simp
  then show ?thesis by blast
next
  case (Some s)
  show ?thesis
  proof (cases "string_find predefines predef_end")
    case None
    then have "UpdatePredefines opts predefines = Inr (predefines @ Predefines opts @ [])"
      using UpdatePredefines_missing by simp
    then show ?thesis by blast
  next
    case (Some e)
    from UpdatePredefines_found [OF \<open>string_find predefines predef_start = Some s\<close> Some]
    show ?thesis by blast
  qed
qed

section \<open>The argument vector\<close>

text \<open>
  C6. Under emulation (\<open>HaveCC\<close>) the vector handed to \<open>runClangImpl\<close> is the caller's
  vector, unchanged, followed by: \<open>-target\<close> and the triple when the triple is not empty,
  then \<open>-nostdinc\<close>, then for each include directory in its order \<open>-isystem\<close> and
  right after it the directory, then \<open>-undef\<close>. Triple and directories are passed as
  C strings (\<open>c_str\<close>), which are the strings themselves when they hold no NUL byte
  (\<open>c_str_id\<close>).
\<close>

theorem runClang_args_emulation:
  assumes "HaveCC opts"
  shows "runClang_args argv opts =
           argv
           @ (if Triple opts \<noteq> [] then [''-target'', c_str (Triple opts)] else [])
           @ [''-nostdinc'']
           @ concat (map (\<lambda>dir. [''-isystem'', c_str dir]) (Includes opts))
           @ [''-undef'']
       \<and> runClang clang argv opts st = runClangImpl clang (runClang_args argv opts) opts st"
  using assms by (simp add: runClang_args_def runClang_includes_concat runClang_def)

theorem runClang_args_emulation_witness:
  "runClang_args [''-x'', ''c++'', ''file1.cpp'']
     (ex_opts\<lparr>HaveCC := True, Triple := ''x86_64-unknown-linux-gnu'',
               Includes := [''/A'', ''/B'', ''/C'']\<rparr>)
   = [''-x'', ''c++'', ''file1.cpp'', ''-target'', ''x86_64-unknown-linux-gnu'', ''-nostdinc'',
      ''-isystem'', ''/A'', ''-isystem'', ''/B'', ''-isystem'', ''/C'', ''-undef'']
   \<and> runClang_args [''file1.cpp''] (ex_opts\<lparr>HaveCC := True, Includes := [''/A'']\<rparr>)
   = [''file1.cpp'', ''-nostdinc'', ''-isystem'', ''/A'', ''-undef'']"
proof -
  have h1: "HaveCC (ex_opts\<lparr>HaveCC := True, Triple := ''x86_64-unknown-linux-gnu'',
               Includes := [''/A'', ''/B'', ''/C'']\<rparr>)" by simp
  have h2: "HaveCC (ex_opts\<lparr>HaveCC := True, Includes := [''/A'']\<rparr>)" by simp
  show ?thesis
    using runClang_args_emulation [OF h1, of "[''-x'', ''c++'', ''file1.cpp'']" ex_clang ex_state]
      runClang_args_emulation [OF h2, of "[''file1.cpp'']" ex_clang ex_state]
    by (simp add: c_str_def ex_opts_def)
qed

text \<open>
  C7. Without emulation the vector handed to \<open>runClangImpl\<close> is the caller's vector,
  token for token, and the run is the run of \<open>runClangImpl\<close> on it. The caller's
  range is read through pointers to constants and copied; in the model it is a value.
\<close>

theorem runClang_no_emulation:
  assumes "\<not> HaveCC opts"
  shows "runClang_args argv opts = argv
       \<and> runClang clang argv opts st = runClangImpl clang argv opts st"
  using assms by (simp add: runClang_args_def runClang_def)

theorem runClang_no_emulation_witness:
  "runClang_args [''-x'', ''c++'', ''-std=c++11'', ''file1.cpp'']
      (ex_opts\<lparr>Triple := ''x86_64-unknown-linux-gnu'', Includes := [''/A'']\<rparr>)
     = [''-x'', ''c++'', ''-std=c++11'', ''file1.cpp'']
   \<and> runClang ex_clang [''-x'', ''c++'', ''-std=c++11'', ''file1.cpp'']
      (ex_opts\<lparr>Triple := ''x86_64-unknown-linux-gnu'', Includes := [''/A'']\<rparr>) ex_state
     = runClangImpl ex_clang [''-x'', ''c++'', ''-std=c++11'', ''file1.cpp'']
      (ex_opts\<lparr>Triple := ''x86_64-unknown-linux-gnu'', Includes := [''/A'']\<rparr>) ex_state"
proof -
  have h: "\<not> HaveCC (ex_opts\<lparr>Triple := ''x86_64-unknown-linux-gnu'', Includes := [''/A'']\<rparr>)"
    by (simp add: ex_opts_def)
  show ?thesis
    using runClang_no_emulation [OF h] by blast
qed

section \<open>The run\<close>

text \<open>
  C3. With \<open>c\<close> the compilation the driver built: the exit code is 0 exactly when the
  run stopped at the print-jobs flag, or the output check passed and every job of the
  list contributed \<open>true\<close>; otherwise it is 1. The \<open>result\<close> of the loop is the
  conjunction of the booleans of all jobs.
\<close>

theorem runClangImpl_exit_code:
  assumes "runClangImpl_compilation clang args opts st = (c, st1)"
  shows "(fst (runClangImpl clang args opts st) = 0 \<longleftrightarrow>
            hasArg (getArgs c) OPT__HASH_HASH_HASH
          \<or> (\<not> (OutputFile opts \<noteq> [] \<and> 1 < length (getJobs c))
             \<and> list_all id (jobResults clang opts (getJobs c) st1)))
       \<and> (fst (runClangImpl clang args opts st) = 0 \<or> fst (runClangImpl clang args opts st) = 1)
       \<and> fst (runJobs clang opts (getJobs c) True st1)
           = list_all id (jobResults clang opts (getJobs c) st1)"
proof -
  have r: "fst (runJobs clang opts (getJobs c) True st1)
             = list_all id (jobResults clang opts (getJobs c) st1)"
    using runJobs_jobResults [of clang opts "getJobs c" True st1] by simp
  obtain result st2 where j: "runJobs clang opts (getJobs c) True st1 = (result, st2)"
    by fastforce
  with r have "result = list_all id (jobResults clang opts (getJobs c) st1)" by simp
  with assms j r show ?thesis by (simp add: runClangImpl_def)
qed

theorem runClangImpl_exit_code_witness:
  "jobResults ex_clang ex_opts
      (map (ex_job ''-fsyntax-only'') [''a.cpp'', ''b.cpp'', ''broken.cpp'', ''c.cpp''])
      \<lparr>world = 1, trace = []\<rparr> = [True, True, False, True]
   \<and> fst (runClangImpl ex_clang [''a.cpp'', ''b.cpp'', ''broken.cpp'', ''c.cpp''] ex_opts ex_state) = 1
   \<and> jobResults ex_clang ex_opts
      (map (ex_job ''-fsyntax-only'') [''a.cpp'', ''b.cpp'', ''c.cpp''])
      \<lparr>world = 1, trace = []\<rparr> = [True, True, True]
   \<and> fst (runClangImpl ex_clang [''a.cpp'', ''b.cpp'', ''c.cpp''] ex_opts ex_state) = 0"
proof -
  let ?c1 = "\<lparr>getArgs = [], getJobs = map (ex_job ''-fsyntax-only'')
               [''a.cpp'', ''b.cpp'', ''broken.cpp'', ''c.cpp'']\<rparr>"
  let ?c2 = "\<lparr>getArgs = [], getJobs = map (ex_job ''-fsyntax-only'')
               [''a.cpp'', ''b.cpp'', ''c.cpp'']\<rparr>"
  let ?st1 = "\<lparr>world = Suc 0, trace = []\<rparr> :: nat State"
  have c1: "runClangImpl_compilation ex_clang [''a.cpp'', ''b.cpp'', ''broken.cpp'', ''c.cpp'']
              ex_opts ex_state = (?c1, ?st1)"
    by (simp add: runClangImpl_compilation_def runClangImpl_cArgs_def ex_clang_def ex_opts_def
        ex_state_def ex_is_input_def)
  have c2: "runClangImpl_compilation ex_clang [''a.cpp'', ''b.cpp'', ''c.cpp'']
              ex_opts ex_state = (?c2, ?st1)"
    by (simp add: runClangImpl_compilation_def runClangImpl_cArgs_def ex_clang_def ex_opts_def
        ex_state_def ex_is_input_def)
  have r1: "jobResults ex_clang ex_opts (getJobs ?c1) ?st1 = [True, True, False, True]"
    by (simp add: runJob_def runClangCI_def CreateFrontendAction_def emit_def ex_job_def
        ex_clang_def ex_opts_def Let_def)
  have r2: "jobResults ex_clang ex_opts (getJobs ?c2) ?st1 = [True, True, True]"
    by (simp add: runJob_def runClangCI_def CreateFrontendAction_def emit_def ex_job_def
        ex_clang_def ex_opts_def Let_def)
  have n: "\<not> hasArg [] OPT__HASH_HASH_HASH" by (simp add: hasArg_def)
  have o: "OutputFile ex_opts = []" by (simp add: ex_opts_def)
  have "\<not> list_all id (jobResults ex_clang ex_opts (getJobs ?c1) ?st1)"
    unfolding r1 by simp
  with runClangImpl_exit_code [OF c1] n
  have e1: "fst (runClangImpl ex_clang [''a.cpp'', ''b.cpp'', ''broken.cpp'', ''c.cpp'']
              ex_opts ex_state) = 1"
    by (auto simp del: jobResults.simps runJobs.simps)
  have "list_all id (jobResults ex_clang ex_opts (getJobs ?c2) ?st1)"
    unfolding r2 by simp
  with runClangImpl_exit_code [OF c2] o
  have e2: "fst (runClangImpl ex_clang [''a.cpp'', ''b.cpp'', ''c.cpp''] ex_opts ex_state) = 0"
    by (auto simp del: jobResults.simps runJobs.simps)
  show ?thesis using e1 e2 r1 r2 by simp
qed

text \<open>
  C5. When the parsed arguments hold the print-jobs flag, whatever the options are, the
  run returns 0 and all it does after the driver built the compilation is to print the
  job list to \<open>llvm::errs()\<close>: no job is parsed or executed.
\<close>

theorem runClangImpl_print_jobs:
  assumes "runClangImpl_compilation clang args opts st = (c, st1)"
    and "hasArg (getArgs c) OPT__HASH_HASH_HASH"
  shows "runClangImpl clang args opts st =
           (0, st1\<lparr>trace := trace st @
                  [ErrsPrint (Job_Print clang (JobList (getJobs c)) ''\<newline>'' True)]\<rparr>)"
  using assms runClangImpl_compilation_trace [OF assms(1)]
  by (simp add: runClangImpl_def emit_def)

theorem runClangImpl_print_jobs_witness:
  "runClangImpl ex_clang [''-###'', ''a.cpp'', ''c.cpp'']
     (ex_opts\<lparr>OutputFile := ''out.xml''\<rparr>) ex_state
   = (0, \<lparr>world = 1, trace = [ErrsPrint ''<job>\<newline>'']\<rparr>)"
proof -
  let ?c = "\<lparr>getArgs = [OPT__HASH_HASH_HASH], getJobs = map (ex_job ''-fsyntax-only'')
               [''a.cpp'', ''c.cpp'']\<rparr>"
  let ?st1 = "\<lparr>world = Suc 0, trace = []\<rparr> :: nat State"
  have c: "runClangImpl_compilation ex_clang [''-###'', ''a.cpp'', ''c.cpp'']
              (ex_opts\<lparr>OutputFile := ''out.xml''\<rparr>) ex_state = (?c, ?st1)"
    by (simp add: runClangImpl_compilation_def runClangImpl_cArgs_def ex_clang_def ex_opts_def
        ex_state_def ex_is_input_def)
  have h: "hasArg (getArgs ?c) OPT__HASH_HASH_HASH" by (simp add: hasArg_def)
  show ?thesis
    using runClangImpl_print_jobs [OF c h] by (simp add: ex_clang_def ex_state_def)
qed

text \<open>
  C4, as stated, fails when the print-jobs flag is present: with an output file and two
  jobs the run prints the job list, reports no diagnostic and returns 0.
\<close>

theorem runClangImpl_output_conflict_counterexample:
  "OutputFile (ex_opts\<lparr>OutputFile := ''out.xml''\<rparr>) = ''out.xml''
   \<and> length (getJobs (fst (runClangImpl_compilation ex_clang [''-###'', ''a.cpp'', ''c.cpp'']
        (ex_opts\<lparr>OutputFile := ''out.xml''\<rparr>) ex_state))) = 2
   \<and> runClangImpl ex_clang [''-###'', ''a.cpp'', ''c.cpp'']
        (ex_opts\<lparr>OutputFile := ''out.xml''\<rparr>) ex_state
      = (0, \<lparr>world = 1, trace = [ErrsPrint ''<job>\<newline>'']\<rparr>)"
  by (simp add: runClangImpl_def runClangImpl_compilation_def runClangImpl_cArgs_def
      hasArg_def emit_def ex_clang_def ex_opts_def ex_state_def ex_is_input_def)

text \<open>
  C4, amended. When the parsed arguments do not hold the print-jobs flag, an output file
  is configured and the driver computed more than one job, the run returns 1 and all it
  does after the driver built the compilation is to report the diagnostic
  \<open>err_drv_output_argument_with_multiple_files\<close>: no job is parsed or executed.
\<close>

theorem runClangImpl_output_conflict:
  assumes "runClangImpl_compilation clang args opts st = (c, st1)"
    and "\<not> hasArg (getArgs c) OPT__HASH_HASH_HASH"
    and "OutputFile opts \<noteq> []"
    and "1 < length (getJobs c)"
  shows "runClangImpl clang args opts st =
           (1, st1\<lparr>trace := trace st @
                  [Report err_drv_output_argument_with_multiple_files []]\<rparr>)"
  using assms runClangImpl_compilation_trace [OF assms(1)]
  by (simp add: runClangImpl_def emit_def)

theorem runClangImpl_output_conflict_witness:
  "runClangImpl ex_clang [''a.cpp'', ''c.cpp''] (ex_opts\<lparr>OutputFile := ''out.xml''\<rparr>) ex_state
   = (1, \<lparr>world = 1, trace = [Report err_drv_output_argument_with_multiple_files []]\<rparr>)"
proof -
  let ?c = "\<lparr>getArgs = [], getJobs = map (ex_job ''-fsyntax-only'') [''a.cpp'', ''c.cpp'']\<rparr>"
  let ?st1 = "\<lparr>world = Suc 0, trace = []\<rparr> :: nat State"
  have c: "runClangImpl_compilation ex_clang [''a.cpp'', ''c.cpp'']
              (ex_opts\<lparr>OutputFile := ''out.xml''\<rparr>) ex_state = (?c, ?st1)"
    by (simp add: runClangImpl_compilation_def runClangImpl_cArgs_def ex_clang_def ex_opts_def
        ex_state_def ex_is_input_def)
  have h1: "\<not> hasArg (getArgs ?c) OPT__HASH_HASH_HASH" by (simp add: hasArg_def)
  have h2: "OutputFile (ex_opts\<lparr>OutputFile := ''out.xml''\<rparr>) \<noteq> []" by simp
  have h3: "1 < length (getJobs ?c)" by simp
  show ?thesis
    using runClangImpl_output_conflict [OF c h1 h2 h3] by (simp add: ex_state_def)
qed

section \<open>The job loop\<close>

text \<open>
  C9. A job that is not a command created by \<open>clang\<close> is printed to a buffer, the two
  diagnostics \<open>err_fe_expected_clang_command\<close> and \<open>err_fe_expected_compiler_job\<close>
  (with the printed text) are reported and nothing else happens for it, \<open>result\<close>
  becomes \<open>false\<close>, and the loop goes on with the jobs after it, in their order.
\<close>

theorem runJobs_unexpected_job:
  assumes "\<nexists>arguments. job = Command ''clang'' arguments"
  shows "runJobs clang opts (before @ job # rest) result st =
           (case runJobs clang opts before result st of
              (result', st') \<Rightarrow>
                runJobs clang opts rest False
                  (st'\<lparr>trace := trace st' @
                     [Report err_fe_expected_clang_command [],
                      Report err_fe_expected_compiler_job
                        [Job_Print clang job ''\<newline>'' True]]\<rparr>))"
  by (simp add: runJobs_append runJob_unexpected [OF assms] split: prod.splits)

theorem runJobs_unexpected_job_witness:
  "runJobs ex_clang ex_opts
     ([Command ''clang'' [''-cc1'', ''-E'', ''a.cpp'']] @ Command ''ld'' [''lib.a'']
        # [Command ''clang'' [''-cc1'', ''-E'', ''c.cpp'']]) True ex_state
   = (case runJobs ex_clang ex_opts [Command ''clang'' [''-cc1'', ''-E'', ''a.cpp'']] True ex_state of
        (result', st') \<Rightarrow>
          runJobs ex_clang ex_opts [Command ''clang'' [''-cc1'', ''-E'', ''c.cpp'']] False
            (st'\<lparr>trace := trace st' @
               [Report err_fe_expected_clang_command [],
                Report err_fe_expected_compiler_job [''<job>\<newline>'']]\<rparr>))
   \<and> map (\<lambda>ev. case ev of Call_ExecuteAction CI action \<Rightarrow> InvocationArgs CI | _ \<Rightarrow> [])
       (trace (snd (runJobs ex_clang ex_opts
         ([Command ''clang'' [''-cc1'', ''-E'', ''a.cpp'']] @ Command ''ld'' [''lib.a'']
            # [Command ''clang'' [''-cc1'', ''-E'', ''c.cpp'']]) True ex_state)))
     = [[], [], [''-cc1'', ''-E'', ''a.cpp''], [], [], [], [], [''-cc1'', ''-E'', ''c.cpp'']]"
proof -
  have h: "\<nexists>arguments. Command ''ld'' [''lib.a''] = Command ''clang'' arguments" by simp
  have p: "Job_Print ex_clang (Command ''ld'' [''lib.a'']) ''\<newline>'' True = ''<job>\<newline>''"
    by (simp add: ex_clang_def)
  note t = runJobs_unexpected_job [OF h, of ex_clang ex_opts
      "[Command ''clang'' [''-cc1'', ''-E'', ''a.cpp'']]"
      "[Command ''clang'' [''-cc1'', ''-E'', ''c.cpp'']]" True ex_state, unfolded p]
  have "map (\<lambda>ev. case ev of Call_ExecuteAction CI action \<Rightarrow> InvocationArgs CI | _ \<Rightarrow> [])
       (trace (snd (runJobs ex_clang ex_opts
         ([Command ''clang'' [''-cc1'', ''-E'', ''a.cpp'']] @ Command ''ld'' [''lib.a'']
            # [Command ''clang'' [''-cc1'', ''-E'', ''c.cpp'']]) True ex_state)))
     = [[], [], [''-cc1'', ''-E'', ''a.cpp''], [], [], [], [], [''-cc1'', ''-E'', ''c.cpp'']]"
    by (simp add: runJob_def runClangCI_def CreateFrontendAction_def emit_def
        ex_clang_def ex_opts_def ex_state_def Let_def)
  with t show ?thesis by blast
qed

text \<open>
  C8, as stated, fails: after the diagnostic for an unsupported action the run goes on,
  and the job after it is parsed and executed; the exit code is 1.
\<close>

theorem runJobs_unsupported_action_counterexample:
  "runClangImpl ex_clang [''emit.cpp'', ''c.cpp''] ex_opts ex_state
   = (1, \<lparr>world = 6,
          trace =
            [Call_CreateFromArgs [''-cc1'', ''-fsyntax-only'', ''emit.cpp''],
             Call_createDiagnostics,
             CerrPrint ''error: unsupported action: 17\<newline>'',
             Call_CreateFromArgs [''-cc1'', ''-fsyntax-only'', ''c.cpp''],
             Call_createDiagnostics,
             Call_ExecuteAction
               \<lparr>InvocationArgs = [''-cc1'', ''-fsyntax-only'', ''c.cpp''],
                FrontendOpts = \<lparr>ProgramAction = ParseSyntaxOnly, SkipFunctionBodies = True,
                                FrontendOpts_OutputFile = []\<rparr>,
                hasDiagnostics = True\<rparr>
               (CastXMLSyntaxOnlyAction ex_opts)]\<rparr>)"
proof -
  have d: "decimal 17 = ''17''" by code_simp
  show ?thesis
    by (simp add: runClangImpl_def runClangImpl_compilation_def runClangImpl_cArgs_def
        runJob_def runClangCI_def CreateFrontendAction_def d
        hasArg_def emit_def ex_clang_def ex_opts_def ex_state_def ex_is_input_def ex_job_def
        Let_def del: decimal.simps)
qed

text \<open>
  C8, amended. A \<open>clang\<close> command whose arguments parse to an action other than
  \<open>PrintPreprocessedInput\<close> and \<open>ParseSyntaxOnly\<close> (its diagnostics engine created)
  prints the error with the numeric code of the action and sets \<open>result\<close> to
  \<open>false\<close>; the loop goes on with the jobs after it, and whatever they return the
  \<open>result\<close> of the loop is \<open>false\<close>.
\<close>

theorem runJobs_unsupported_action:
  assumes "CreateFromArgs clang arguments (world st) = ((True, fe), w1)"
    and "ProgramAction fe = OtherAction code"
    and "createDiagnostics clang w1 = (True, w2)"
  shows "runJobs clang opts (Command ''clang'' arguments # rest) result st =
           runJobs clang opts rest False
             (st\<lparr>world := w2,
                 trace := trace st @
                   [Call_CreateFromArgs arguments, Call_createDiagnostics,
                    CerrPrint (''error: unsupported action: '' @ decimal code @ ''\<newline>'')]\<rparr>)
       \<and> fst (runJobs clang opts (Command ''clang'' arguments # rest) result st) = False"
proof -
  have "runJob clang opts (Command ''clang'' arguments) result st =
          (False, st\<lparr>world := w2,
                 trace := trace st @
                   [Call_CreateFromArgs arguments, Call_createDiagnostics,
                    CerrPrint (''error: unsupported action: '' @ decimal code @ ''\<newline>'')]\<rparr>)"
    using assms
    by (simp add: runJob_def runClangCI_def CreateFrontendAction_def emit_def Let_def
        del: decimal.simps)
  then show ?thesis by (simp add: runJobs_False del: decimal.simps)
qed

theorem runJobs_unsupported_action_witness:
  "runJobs ex_clang ex_opts
     [Command ''clang'' [''-cc1'', ''emit.cpp''], Command ''clang'' [''-cc1'', ''c.cpp'']]
     True ex_state
   = runJobs ex_clang ex_opts [Command ''clang'' [''-cc1'', ''c.cpp'']] False
       \<lparr>world = 2,
        trace = [Call_CreateFromArgs [''-cc1'', ''emit.cpp''], Call_createDiagnostics,
                 CerrPrint ''error: unsupported action: 17\<newline>'']\<rparr>
   \<and> fst (runJobs ex_clang ex_opts
     [Command ''clang'' [''-cc1'', ''emit.cpp''], Command ''clang'' [''-cc1'', ''c.cpp'']]
     True ex_state) = False"
proof -
  let ?fe = "\<lparr>ProgramAction = OtherAction 17, SkipFunctionBodies = False,
              FrontendOpts_OutputFile = []\<rparr>"
  have h1: "CreateFromArgs ex_clang [''-cc1'', ''emit.cpp''] (world ex_state) = ((True, ?fe), 1)"
    by (simp add: ex_clang_def ex_state_def)
  have h2: "ProgramAction ?fe = OtherAction 17" by simp
  have h3: "createDiagnostics ex_clang 1 = (True, 2)"
    by (simp add: ex_clang_def)
  have d: "decimal 17 = ''17''" by code_simp
  have s: "ex_state\<lparr>world := 2, trace := trace ex_state @
                   [Call_CreateFromArgs [''-cc1'', ''emit.cpp''], Call_createDiagnostics,
                    CerrPrint (''error: unsupported action: '' @ ''17'' @ ''\<newline>'')]\<rparr>
         = \<lparr>world = 2,
        trace = [Call_CreateFromArgs [''-cc1'', ''emit.cpp''], Call_createDiagnostics,
                 CerrPrint ''error: unsupported action: 17\<newline>'']\<rparr>"
    by (simp add: ex_state_def)
  show ?thesis
    using runJobs_unsupported_action [OF h1 h2 h3, of ex_opts
        "[Command ''clang'' [''-cc1'', ''c.cpp'']]" True, unfolded d s]
    by blast
qed

end
